theory Spec2Isabelle
  imports Main
begin

section \<open>Diffie-Hellman handshake (handshake.py)\<close>

text \<open>
  A shallow embedding of \<^verbatim>\<open>src/handshake.py\<close>. Python's unbounded integers are
  \<open>int\<close>; an \<^verbatim>\<open>Optional[int]\<close> attribute is an \<open>int option\<close>; every dataclass is a
  record with the source's field names. A method that mutates \<^verbatim>\<open>self\<close> takes the
  object and returns the object as the call leaves it, paired with either the exception
  that was raised or the value that was returned, so that what an aborted call has
  already stored stays visible. The narration written with \<^verbatim>\<open>print\<close> is not modelled.
\<close>

subsection \<open>Exceptions\<close>

text \<open>
  The two exceptions the module can raise: a failed \<^verbatim>\<open>assert\<close> statement and the
  \<^verbatim>\<open>ValueError\<close> of the built-in \<^verbatim>\<open>pow\<close>. The specification calls them
  ProtocolError and DomainError.
\<close>

datatype error = AssertionError | ValueError

subsection \<open>The built-in three-argument pow\<close>

text \<open>
  \<^verbatim>\<open>pow(base, exp, mod)\<close> on integers, as the interpreter computes it: binary
  exponentiation that reduces after every multiplication. Python's \<^verbatim>\<open>%\<close> takes the
  sign of the divisor, as \<open>mod\<close> on \<open>int\<close> does, so a negative modulus gives a result in
  \<open>(mod, 0]\<close>.
\<close>

fun powmod :: "int \<Rightarrow> nat \<Rightarrow> int \<Rightarrow> int" where
  "powmod x n m =
     (if n = 0 then 1 mod m
      else if n mod 2 = 1 then (x * powmod (x * x mod m) (n div 2) m) mod m
      else powmod (x * x mod m) (n div 2) m)"

declare powmod.simps [simp del]

text \<open>
  The extended Euclidean loop behind a negative exponent: it runs on \<open>(a, n)\<close> with the
  coefficients \<open>(b, c)\<close> until \<open>n = 0\<close>, and returns the last \<open>a\<close> (the gcd) and \<open>b\<close>.
\<close>

function invmod_loop :: "int \<Rightarrow> int \<Rightarrow> int \<Rightarrow> int \<Rightarrow> int \<times> int" where
  "invmod_loop a n b c =
     (if n = 0 then (a, b)
      else invmod_loop n (a mod n) c (b - (a div n) * c))"
  by pat_completeness auto
termination
  by (relation "measure (\<lambda>(a, n, b, c). nat \<bar>n\<bar>)") (auto simp: abs_mod_less)

declare invmod_loop.simps [simp del]

definition long_invmod :: "int \<Rightarrow> int \<Rightarrow> error + int" where
  \<comment> \<open>"base is not invertible for the given modulus"\<close>
  "long_invmod a n =
     (case invmod_loop a n 1 0 of
        (d, b) \<Rightarrow> if d \<noteq> 1 then Inl ValueError else Inr b)"

definition py_pow :: "int \<Rightarrow> int \<Rightarrow> int \<Rightarrow> error + int" where
  \<comment> \<open>"pow() 3rd argument cannot be 0"; a negative exponent inverts the base first\<close>
  "py_pow base e modulus =
     (if modulus = 0 then Inl ValueError
      else if e < 0 then
        (case long_invmod base \<bar>modulus\<bar> of
           Inl err \<Rightarrow> Inl err
         | Inr inv_base \<Rightarrow> Inr (powmod inv_base (nat (- e)) modulus))
      else Inr (powmod base (nat e) modulus))"

subsection \<open>Parameters and messages\<close>

record DHParams =
  p :: int
  g :: int

definition DH_PARAMS :: DHParams where
  "DH_PARAMS = \<lparr>p = 23, g = 5\<rparr>"

record ClientHello =
  requested_group :: string

definition ClientHello_default :: ClientHello where
  "ClientHello_default = \<lparr>requested_group = ''DH_23_5''\<rparr>"

record ServerHello =
  selected_group :: string
  params :: DHParams

record ClientKeyShare =
  A :: int

record ServerKeyShare =
  B :: int

record Finished =
  ok :: bool

subsection \<open>Public value and shared secret\<close>

definition dh_public :: "int \<Rightarrow> int \<Rightarrow> int \<Rightarrow> error + int" where
  "dh_public gen e modulus = py_pow gen e modulus"

definition dh_shared :: "int \<Rightarrow> int \<Rightarrow> int \<Rightarrow> error + int" where
  "dh_shared pub_other e modulus = py_pow pub_other e modulus"

subsection \<open>The client\<close>

record DHClient =
  params :: DHParams
  a :: "int option"
  A :: "int option"
  shared :: "int option"

definition DHClient_init :: "DHParams \<Rightarrow> DHClient" where
  "DHClient_init prm =
     \<lparr>DHClient.params = prm, DHClient.a = None, DHClient.A = None, DHClient.shared = None\<rparr>"

definition start :: "DHClient \<Rightarrow> DHClient \<times> ClientHello" where
  "start self = (self, ClientHello_default)"

definition on_server_hello :: "DHClient \<Rightarrow> ServerHello \<Rightarrow> DHClient \<times> (error + ClientKeyShare)" where
  "on_server_hello self sh =
     (if ServerHello.params sh \<noteq> DHClient.params self then (self, Inl AssertionError)
      else
        let self1 = self\<lparr>DHClient.a := Some 6\<rparr> in
        (case dh_public (g (DHClient.params self1)) (the (DHClient.a self1))
                (p (DHClient.params self1)) of
           Inl err \<Rightarrow> (self1, Inl err)
         | Inr v \<Rightarrow>
             let self2 = self1\<lparr>DHClient.A := Some v\<rparr> in
             (self2, Inr \<lparr>ClientKeyShare.A = the (DHClient.A self2)\<rparr>)))"

definition on_server_keyshare :: "DHClient \<Rightarrow> ServerKeyShare \<Rightarrow> DHClient \<times> (error + Finished)" where
  "on_server_keyshare self sk =
     (case DHClient.a self of
        None \<Rightarrow> (self, Inl AssertionError)
      | Some e \<Rightarrow>
          (case dh_shared (ServerKeyShare.B sk) e (p (DHClient.params self)) of
             Inl err \<Rightarrow> (self, Inl err)
           | Inr k \<Rightarrow> (self\<lparr>DHClient.shared := Some k\<rparr>, Inr \<lparr>ok = True\<rparr>)))"

subsection \<open>The server\<close>

record DHServer =
  params :: DHParams
  b :: "int option"
  B :: "int option"
  shared :: "int option"

definition DHServer_init :: "DHParams \<Rightarrow> DHServer" where
  "DHServer_init prm =
     \<lparr>DHServer.params = prm, DHServer.b = None, DHServer.B = None, DHServer.shared = None\<rparr>"

definition on_client_hello :: "DHServer \<Rightarrow> ClientHello \<Rightarrow> DHServer \<times> ServerHello" where
  "on_client_hello self ch =
     (self, \<lparr>selected_group = ''DH_23_5'', ServerHello.params = DHServer.params self\<rparr>)"

definition on_client_keyshare ::
  "DHServer \<Rightarrow> ClientKeyShare \<Rightarrow> DHServer \<times> (error + ServerKeyShare \<times> Finished)" where
  "on_client_keyshare self ck =
     (let self1 = self\<lparr>DHServer.b := Some 15\<rparr> in
      case dh_public (g (DHServer.params self1)) (the (DHServer.b self1))
             (p (DHServer.params self1)) of
        Inl err \<Rightarrow> (self1, Inl err)
      | Inr v \<Rightarrow>
          let self2 = self1\<lparr>DHServer.B := Some v\<rparr> in
          (case dh_shared (ClientKeyShare.A ck) (the (DHServer.b self2))
                  (p (DHServer.params self2)) of
             Inl err \<Rightarrow> (self2, Inl err)
           | Inr k \<Rightarrow>
               let self3 = self2\<lparr>DHServer.shared := Some k\<rparr> in
               (self3, Inr (\<lparr>ServerKeyShare.B = the (DHServer.B self3)\<rparr>, \<lparr>ok = True\<rparr>))))"

subsection \<open>The driver\<close>

text \<open>
  \<open>handshake\<close> is the message sequence of \<^verbatim>\<open>main\<close> (steps 1 to 3) on a given client
  and server; an exception raised by a step ends the run. It returns the two objects and
  the two Finished messages that \<^verbatim>\<open>main\<close> then reports. \<open>main\<close> runs it on roles built
  from \<open>DH_PARAMS\<close>.
\<close>

definition handshake ::
  "DHClient \<Rightarrow> DHServer \<Rightarrow> error + DHClient \<times> DHServer \<times> Finished \<times> Finished" where
  "handshake client server =
     (case start client of (client1, ch) \<Rightarrow>
     (case on_client_hello server ch of (server1, sh) \<Rightarrow>
     (case on_server_hello client1 sh of (client2, r1) \<Rightarrow>
     (case r1 of Inl err \<Rightarrow> Inl err | Inr ck \<Rightarrow>
     (case on_client_keyshare server1 ck of (server2, r2) \<Rightarrow>
     (case r2 of Inl err \<Rightarrow> Inl err | Inr (sk, fin_srv) \<Rightarrow>
     (case on_server_keyshare client2 sk of (client3, r3) \<Rightarrow>
     (case r3 of Inl err \<Rightarrow> Inl err | Inr fin_cli \<Rightarrow>
        Inr (client3, server2, fin_cli, fin_srv)))))))))"

definition main :: "error + DHClient \<times> DHServer \<times> Finished \<times> Finished" where
  "main = handshake (DHClient_init DH_PARAMS) (DHServer_init DH_PARAMS)"

text \<open>The "Equal?" line of the report.\<close>

definition equal_shared :: "DHClient \<times> DHServer \<times> Finished \<times> Finished \<Rightarrow> bool" where
  "equal_shared r =
     (case r of (client, server, fin_cli, fin_srv) \<Rightarrow>
        DHClient.shared client = DHServer.shared server)"

section \<open>Properties\<close>

subsection \<open>The built-in pow computes the power modulo the modulus\<close>

lemma powmod_eq: "powmod x n m = x ^ n mod m"
proof (induction x n m rule: powmod.induct)
  case (1 x n m)
  show ?case
  proof (cases "n = 0")
    case True
    then show ?thesis by (simp add: powmod.simps)
  next
    case False
    have sq: "(x * x mod m) ^ (n div 2) mod m = x ^ (2 * (n div 2)) mod m"
      by (simp add: power_mod power_mult power2_eq_square)
    show ?thesis
    proof (cases "n mod 2 = 1")
      case True
      then have n: "n = Suc (2 * (n div 2))" by presburger
      have "powmod x n m = (x * (x ^ (2 * (n div 2)) mod m)) mod m"
        using False True 1 sq by (subst powmod.simps) simp
      also have "\<dots> = x ^ Suc (2 * (n div 2)) mod m"
        by (simp add: mod_mult_right_eq)
      finally show ?thesis using n by simp
    next
      case odd: False
      then have n: "n = 2 * (n div 2)" by presburger
      have "powmod x n m = x ^ (2 * (n div 2)) mod m"
        using False odd 1 sq by (subst powmod.simps) simp
      then show ?thesis using n by simp
    qed
  qed
qed



lemma py_pow_zero_modulus: "py_pow x e 0 = Inl ValueError"
  by (simp add: py_pow_def)

lemma py_pow_nonneg: "m \<noteq> 0 \<Longrightarrow> 0 \<le> e \<Longrightarrow> py_pow x e m = Inr (x ^ nat e mod m)"
  by (simp add: py_pow_def powmod_eq)






lemma dh_public_nonneg: "m \<noteq> 0 \<Longrightarrow> 0 \<le> e \<Longrightarrow> dh_public x e m = Inr (x ^ nat e mod m)"
  by (simp add: dh_public_def py_pow_nonneg)

lemma dh_shared_nonneg: "m \<noteq> 0 \<Longrightarrow> 0 \<le> e \<Longrightarrow> dh_shared x e m = Inr (x ^ nat e mod m)"
  by (simp add: dh_shared_def py_pow_nonneg)

subsection \<open>What each step stores and returns\<close>

lemma on_server_hello_mismatch:
  "ServerHello.params sh \<noteq> DHClient.params c \<Longrightarrow> on_server_hello c sh = (c, Inl AssertionError)"
  by (simp add: on_server_hello_def)

lemma on_server_hello_zero:
  "ServerHello.params sh = DHClient.params c \<Longrightarrow> p (DHClient.params c) = 0 \<Longrightarrow>
   on_server_hello c sh = (c\<lparr>DHClient.a := Some 6\<rparr>, Inl ValueError)"
  by (simp add: on_server_hello_def dh_public_def py_pow_zero_modulus)

lemma on_server_hello_ok:
  "ServerHello.params sh = DHClient.params c \<Longrightarrow> p (DHClient.params c) \<noteq> 0 \<Longrightarrow>
   on_server_hello c sh =
     (c\<lparr>DHClient.a := Some 6,
        DHClient.A := Some (g (DHClient.params c) ^ 6 mod p (DHClient.params c))\<rparr>,
      Inr \<lparr>ClientKeyShare.A = g (DHClient.params c) ^ 6 mod p (DHClient.params c)\<rparr>)"
  by (simp add: on_server_hello_def dh_public_nonneg)

lemma on_server_keyshare_unset:
  "DHClient.a c = None \<Longrightarrow> on_server_keyshare c sk = (c, Inl AssertionError)"
  by (simp add: on_server_keyshare_def)

lemma on_server_keyshare_ok:
  "DHClient.a c = Some e \<Longrightarrow> 0 \<le> e \<Longrightarrow> p (DHClient.params c) \<noteq> 0 \<Longrightarrow>
   on_server_keyshare c sk =
     (c\<lparr>DHClient.shared := Some (ServerKeyShare.B sk ^ nat e mod p (DHClient.params c))\<rparr>,
      Inr \<lparr>ok = True\<rparr>)"
  by (simp add: on_server_keyshare_def dh_shared_nonneg)

lemma on_client_keyshare_zero:
  "p (DHServer.params s) = 0 \<Longrightarrow>
   on_client_keyshare s ck = (s\<lparr>DHServer.b := Some 15\<rparr>, Inl ValueError)"
  by (simp add: on_client_keyshare_def dh_public_def py_pow_zero_modulus)

lemma on_client_keyshare_ok:
  "p (DHServer.params s) \<noteq> 0 \<Longrightarrow>
   on_client_keyshare s ck =
     (s\<lparr>DHServer.b := Some 15,
        DHServer.B := Some (g (DHServer.params s) ^ 15 mod p (DHServer.params s)),
        DHServer.shared := Some (ClientKeyShare.A ck ^ 15 mod p (DHServer.params s))\<rparr>,
      Inr (\<lparr>ServerKeyShare.B = g (DHServer.params s) ^ 15 mod p (DHServer.params s)\<rparr>,
           \<lparr>ok = True\<rparr>))"
  by (simp add: on_client_keyshare_def dh_public_nonneg dh_shared_nonneg)

subsection \<open>The three outcomes of a run\<close>

lemma handshake_mismatch:
  "DHServer.params s \<noteq> DHClient.params c \<Longrightarrow> handshake c s = Inl AssertionError"
  by (simp add: handshake_def start_def on_client_hello_def on_server_hello_mismatch)

lemma handshake_zero:
  "DHServer.params s = DHClient.params c \<Longrightarrow> p (DHClient.params c) = 0 \<Longrightarrow>
   handshake c s = Inl ValueError"
  by (simp add: handshake_def start_def on_client_hello_def on_server_hello_zero)

lemma handshake_ok:
  assumes "DHServer.params s = DHClient.params c" and "p (DHClient.params c) \<noteq> 0"
  shows "handshake c s =
     Inr (c\<lparr>DHClient.a := Some 6,
            DHClient.A := Some (g (DHClient.params c) ^ 6 mod p (DHClient.params c)),
            DHClient.shared :=
              Some ((g (DHClient.params c) ^ 15 mod p (DHClient.params c)) ^ 6
                     mod p (DHClient.params c))\<rparr>,
          s\<lparr>DHServer.b := Some 15,
            DHServer.B := Some (g (DHClient.params c) ^ 15 mod p (DHClient.params c)),
            DHServer.shared :=
              Some ((g (DHClient.params c) ^ 6 mod p (DHClient.params c)) ^ 15
                     mod p (DHClient.params c))\<rparr>,
          \<lparr>ok = True\<rparr>, \<lparr>ok = True\<rparr>)"
  using assms
  by (simp add: handshake_def start_def on_client_hello_def on_server_hello_ok
      on_client_keyshare_ok on_server_keyshare_ok)

lemma power_mod_commute:
  "((x::int) ^ i mod m) ^ j mod m = (x ^ j mod m) ^ i mod m"
  by (simp add: power_mod power_mult [symmetric] mult.commute)

section \<open>The claims of the specification\<close>

subsection \<open>C1: agreement\<close>

text \<open>
  C1. For every modulus \<open>m > 0\<close>, every generator and all private exponents \<open>ea\<close>,
  \<open>eb\<close> in \<open>[1, m - 2]\<close>: a full run of the handshake between a client and a server
  that hold the same group parameters ends without an exception, with the client's
  stored shared secret equal to the server's (and set); and the identity behind it holds,
  the secret computed from the peer's public value with the own exponent is the same on
  both sides: \<open>(g^eb mod m)^ea mod m = (g^ea mod m)^eb mod m\<close>. The code fixes the
  exponents of a run at 6 and 15, whatever the modulus is.
\<close>

theorem handshake_agreement:
  assumes "DHClient.params c = \<lparr>p = m, g = gen\<rparr>"
    and "DHServer.params s = \<lparr>p = m, g = gen\<rparr>"
    and "0 < m" and "1 \<le> ea" and "ea \<le> m - 2" and "1 \<le> eb" and "eb \<le> m - 2"
  shows "(\<exists>r. handshake c s = Inr r \<and> equal_shared r \<and> DHClient.shared (fst r) \<noteq> None)
       \<and> (\<exists>Av Bv k. dh_public gen ea m = Inr Av \<and> dh_public gen eb m = Inr Bv
              \<and> dh_shared Bv ea m = Inr k \<and> dh_shared Av eb m = Inr k)"
proof -
  have same: "DHServer.params s = DHClient.params c"
    and pz: "p (DHClient.params c) \<noteq> 0"
    and mz: "m \<noteq> 0" and ea: "0 \<le> ea" and eb: "0 \<le> eb"
    using assms by simp_all
  have run: "\<exists>r. handshake c s = Inr r \<and> equal_shared r \<and> DHClient.shared (fst r) \<noteq> None"
    using handshake_ok [OF same pz]
    by (simp add: equal_shared_def power_mod_commute)
  have "dh_shared (gen ^ nat eb mod m) ea m = dh_shared (gen ^ nat ea mod m) eb m"
    using mz ea eb by (simp add: dh_shared_nonneg power_mod_commute)
  then have "\<exists>Av Bv k. dh_public gen ea m = Inr Av \<and> dh_public gen eb m = Inr Bv
              \<and> dh_shared Bv ea m = Inr k \<and> dh_shared Av eb m = Inr k"
    using mz ea eb by (simp add: dh_public_nonneg dh_shared_nonneg)
  with run show ?thesis by blast
qed

theorem handshake_agreement_witness:
  "(0::int) < 23 \<and> (1::int) \<le> 6 \<and> (6::int) \<le> 23 - 2 \<and> (1::int) \<le> 15 \<and> (15::int) \<le> 23 - 2
   \<and> (\<exists>r. main = Inr r \<and> equal_shared r \<and> DHClient.shared (fst r) \<noteq> None)
   \<and> (\<exists>Av Bv k. dh_public 5 6 23 = Inr Av \<and> dh_public 5 15 23 = Inr Bv
          \<and> dh_shared Bv 6 23 = Inr k \<and> dh_shared Av 15 23 = Inr k)"
  using handshake_agreement [of "DHClient_init DH_PARAMS" 23 5 "DHServer_init DH_PARAMS" 6 15]
  by (simp add: main_def DHServer_init_def DHClient_init_def DH_PARAMS_def)

subsection \<open>C2: the reference run\<close>

text \<open>
  C2. With modulus 23, generator 5 and the exponents 6 and 15, \<open>main\<close> ends with the
  client's public value 8, the server's public value 19, the shared secret 2 stored on
  both sides, the comparison of the two secrets true, and both Finished messages carrying
  \<open>ok = True\<close>; and \<open>modPow(5, 6, 23) = 8\<close>, \<open>modPow(5, 15, 23) = 19\<close>,
  \<open>modPow(19, 6, 23) = modPow(8, 15, 23) = 2\<close>.
\<close>

theorem main_reference_run:
  "main = Inr (\<lparr>DHClient.params = \<lparr>p = 23, g = 5\<rparr>, a = Some 6, A = Some 8, shared = Some 2\<rparr>,
               \<lparr>DHServer.params = \<lparr>p = 23, g = 5\<rparr>, b = Some 15, B = Some 19, shared = Some 2\<rparr>,
               \<lparr>ok = True\<rparr>, \<lparr>ok = True\<rparr>)
   \<and> map_sum id equal_shared main = Inr True
   \<and> dh_public 5 6 23 = Inr 8 \<and> dh_public 5 15 23 = Inr 19
   \<and> dh_shared 19 6 23 = Inr 2 \<and> dh_shared 8 15 23 = Inr 2"
  by (simp add: main_def handshake_ok equal_shared_def dh_public_nonneg dh_shared_nonneg
      DHServer_init_def DHClient_init_def DH_PARAMS_def)

subsection \<open>C3: the order of the messages\<close>

text \<open>
  C3 says that a client in its initial state rejects \<open>on_server_hello\<close> and a server in
  its initial state rejects \<open>on_client_keyshare\<close>. The roles record no protocol state,
  and both calls go through on freshly built roles: the client answers with its key
  share, the server with its key share and Finished.
\<close>

theorem state_order_counterexample:
  "snd (on_server_hello (DHClient_init DH_PARAMS)
          \<lparr>selected_group = ''DH_23_5'', ServerHello.params = DH_PARAMS\<rparr>)
     = Inr \<lparr>ClientKeyShare.A = 8\<rparr>
   \<and> snd (on_client_keyshare (DHServer_init DH_PARAMS) \<lparr>ClientKeyShare.A = 8\<rparr>)
     = Inr (\<lparr>ServerKeyShare.B = 19\<rparr>, \<lparr>ok = True\<rparr>)"
  by (simp add: on_server_hello_ok on_client_keyshare_ok
      DHServer_init_def DHClient_init_def DH_PARAMS_def)

text \<open>
  C3, amended. The only message a role rejects for arriving early is the server's key
  share: a client in its initial state, which has stored no private exponent yet, fails
  \<open>on_server_keyshare\<close> with an assertion error. \<open>start\<close> and \<open>on_client_hello\<close> leave
  their role as it was, and for a modulus other than 0 a client in its initial state
  accepts \<open>on_server_hello\<close> (with its own parameters) and a server in its initial state
  accepts \<open>on_client_keyshare\<close>.
\<close>

theorem state_order_only_keyshare:
  assumes "p prm \<noteq> 0"
  shows "snd (on_server_keyshare (DHClient_init prm) sk) = Inl AssertionError
       \<and> fst (start (DHClient_init prm)) = DHClient_init prm
       \<and> snd (on_server_hello (DHClient_init prm)
                \<lparr>selected_group = sg, ServerHello.params = prm\<rparr>)
           = Inr \<lparr>ClientKeyShare.A = g prm ^ 6 mod p prm\<rparr>
       \<and> fst (on_client_hello (DHServer_init prm) ch) = DHServer_init prm
       \<and> snd (on_client_keyshare (DHServer_init prm) ck)
           = Inr (\<lparr>ServerKeyShare.B = g prm ^ 15 mod p prm\<rparr>, \<lparr>ok = True\<rparr>)"
  using assms
  by (simp add: on_server_keyshare_unset on_server_hello_ok on_client_keyshare_ok
      start_def on_client_hello_def DHServer_init_def DHClient_init_def)

theorem state_order_only_keyshare_witness:
  "p DH_PARAMS \<noteq> 0
   \<and> snd (on_server_keyshare (DHClient_init DH_PARAMS) \<lparr>ServerKeyShare.B = 19\<rparr>)
       = Inl AssertionError
   \<and> snd (on_server_hello (DHClient_init DH_PARAMS)
            \<lparr>selected_group = ''DH_23_5'', ServerHello.params = DH_PARAMS\<rparr>)
       = Inr \<lparr>ClientKeyShare.A = 8\<rparr>
   \<and> snd (on_client_keyshare (DHServer_init DH_PARAMS) \<lparr>ClientKeyShare.A = 8\<rparr>)
       = Inr (\<lparr>ServerKeyShare.B = 19\<rparr>, \<lparr>ok = True\<rparr>)"
  using state_order_only_keyshare [of DH_PARAMS "\<lparr>ServerKeyShare.B = 19\<rparr>" "''DH_23_5''"
      ClientHello_default "\<lparr>ClientKeyShare.A = 8\<rparr>"]
  by (simp add: DH_PARAMS_def)

subsection \<open>C4: group mismatch\<close>

text \<open>
  C4. For every ServerHello whose parameters differ from the ones the client was built
  with, \<open>on_server_hello\<close> fails with an assertion error instead of going on, and
  leaves the client as it was: a client that had no private exponent, public value or
  shared secret has none afterwards.
\<close>

theorem group_mismatch_rejected:
  assumes "ServerHello.params sh \<noteq> DHClient.params c"
  shows "on_server_hello c sh = (c, Inl AssertionError)
       \<and> (DHClient.a c = None \<and> DHClient.A c = None \<and> DHClient.shared c = None \<longrightarrow>
            DHClient.a (fst (on_server_hello c sh)) = None
          \<and> DHClient.A (fst (on_server_hello c sh)) = None
          \<and> DHClient.shared (fst (on_server_hello c sh)) = None)"
  using assms by (simp add: on_server_hello_mismatch)

theorem group_mismatch_rejected_witness:
  "ServerHello.params \<lparr>selected_group = ''DH_23_5'', ServerHello.params = \<lparr>p = 29, g = 2\<rparr>\<rparr>
     \<noteq> DHClient.params (DHClient_init DH_PARAMS)
   \<and> on_server_hello (DHClient_init DH_PARAMS)
        \<lparr>selected_group = ''DH_23_5'', ServerHello.params = \<lparr>p = 29, g = 2\<rparr>\<rparr>
     = (\<lparr>DHClient.params = \<lparr>p = 23, g = 5\<rparr>, a = None, A = None, shared = None\<rparr>,
        Inl AssertionError)"
  using group_mismatch_rejected [of
      "\<lparr>selected_group = ''DH_23_5'', ServerHello.params = \<lparr>p = 29, g = 2\<rparr>\<rparr>"
      "DHClient_init DH_PARAMS"]
  by (simp add: DHClient_init_def DH_PARAMS_def)

subsection \<open>C5: modular exponentiation\<close>

text \<open>
  C5. For every base \<open>x \<ge> 0\<close>, exponent \<open>e \<ge> 0\<close> and modulus \<open>m > 0\<close> (the modulus 2
  included), \<open>dh_public\<close> and \<open>dh_shared\<close> raise nothing and return
  \<open>x^e mod m\<close>, a value in \<open>[0, m)\<close>. Both are functions of their three arguments
  alone.
\<close>

theorem modpow_correct:
  assumes "0 \<le> x" and "0 \<le> e" and "0 < m"
  shows "dh_public x e m = Inr (x ^ nat e mod m)
       \<and> dh_shared x e m = Inr (x ^ nat e mod m)
       \<and> 0 \<le> x ^ nat e mod m \<and> x ^ nat e mod m < m"
  using assms by (simp add: dh_public_nonneg dh_shared_nonneg)

theorem modpow_correct_witness:
  "(0::int) \<le> 3 \<and> (0::int) \<le> 5 \<and> (0::int) < 2
   \<and> dh_public 3 5 2 = Inr 1 \<and> dh_shared 3 5 2 = Inr 1"
  using modpow_correct [of 3 5 2] by simp

subsection \<open>C6: inputs outside the domain\<close>




subsection \<open>C7: Finished is always a success\<close>

text \<open>
  C7. A client that has sent its key share (it is what a successful \<open>on_server_hello\<close>
  left) answers every ServerKeyShare, whatever integer it carries, with Finished
  \<open>ok = True\<close>; and a server whose modulus is not 0 answers every ClientKeyShare with its
  own key share and Finished \<open>ok = True\<close>.
\<close>

theorem finished_unconditional:
  assumes "on_server_hello c0 sh = (c, Inr ck0)"
    and "p (DHServer.params s) \<noteq> 0"
  shows "snd (on_server_keyshare c sk) = Inr \<lparr>ok = True\<rparr>
       \<and> snd (on_client_keyshare s ck)
           = Inr (\<lparr>ServerKeyShare.B = g (DHServer.params s) ^ 15 mod p (DHServer.params s)\<rparr>,
                  \<lparr>ok = True\<rparr>)"
proof -
  have same: "ServerHello.params sh = DHClient.params c0"
    using assms(1) by (auto simp: on_server_hello_def split: if_splits)
  have pz: "p (DHClient.params c0) \<noteq> 0"
    using assms(1) same on_server_hello_zero [of sh c0] by auto
  have c: "c = c0\<lparr>DHClient.a := Some 6,
        DHClient.A := Some (g (DHClient.params c0) ^ 6 mod p (DHClient.params c0))\<rparr>"
    using assms(1) on_server_hello_ok [OF same pz] by simp
  have "snd (on_server_keyshare c sk) = Inr \<lparr>ok = True\<rparr>"
    using pz by (simp add: c on_server_keyshare_ok [of _ 6])
  then show ?thesis using assms(2) by (simp add: on_client_keyshare_ok)
qed

theorem finished_unconditional_witness:
  "snd (on_server_keyshare
         (fst (on_server_hello (DHClient_init DH_PARAMS)
                \<lparr>selected_group = ''DH_23_5'', ServerHello.params = DH_PARAMS\<rparr>))
         \<lparr>ServerKeyShare.B = 0\<rparr>) = Inr \<lparr>ok = True\<rparr>
   \<and> snd (on_client_keyshare (DHServer_init DH_PARAMS) \<lparr>ClientKeyShare.A = - 7\<rparr>)
       = Inr (\<lparr>ServerKeyShare.B = 19\<rparr>, \<lparr>ok = True\<rparr>)"
proof -
  have hello: "on_server_hello (DHClient_init DH_PARAMS)
        \<lparr>selected_group = ''DH_23_5'', ServerHello.params = DH_PARAMS\<rparr>
      = (\<lparr>DHClient.params = DH_PARAMS, a = Some 6, A = Some 8, shared = None\<rparr>,
         Inr \<lparr>ClientKeyShare.A = 8\<rparr>)"
    by (simp add: on_server_hello_ok DHClient_init_def DH_PARAMS_def)
  have pz: "p (DHServer.params (DHServer_init DH_PARAMS)) \<noteq> 0"
    by (simp add: DHServer_init_def DH_PARAMS_def)
  show ?thesis
    using finished_unconditional [OF hello pz, of "\<lparr>ServerKeyShare.B = 0\<rparr>"
        "\<lparr>ClientKeyShare.A = - 7\<rparr>"]
    by (simp add: on_server_hello_ok DHClient_init_def DHServer_init_def DH_PARAMS_def)
qed

subsection \<open>C8: determinism\<close>

text \<open>
  C8. A run is a function of the group parameters alone (the exponents are the constants
  6 and 15): two runs whose clients hold the same parameters and whose servers hold the
  same parameters end alike, with the same public values, the same shared secrets and
  the same Finished messages, or with the same exception, whatever the roles had
  stored before.
\<close>

theorem handshake_deterministic:
  assumes "DHClient.params c1 = DHClient.params c2"
    and "DHServer.params s1 = DHServer.params s2"
  shows "handshake c1 s1 = handshake c2 s2"
proof (cases "DHServer.params s1 = DHClient.params c1")
  case False
  then show ?thesis using assms by (simp add: handshake_mismatch)
next
  case same: True
  show ?thesis
  proof (cases "p (DHClient.params c1) = 0")
    case True
    then show ?thesis using same assms by (simp add: handshake_zero)
  next
    case False
    have "handshake c1 s1 = handshake c2 s2"
      using handshake_ok [of s1 c1] handshake_ok [of s2 c2] same False assms
      by (cases c1; cases c2; cases s1; cases s2) simp
    then show ?thesis .
  qed
qed

theorem handshake_deterministic_witness:
  "handshake (DHClient_init DH_PARAMS) (DHServer_init DH_PARAMS)
     = handshake (DHClient_init DH_PARAMS\<lparr>DHClient.a := Some 99, DHClient.shared := Some 7\<rparr>)
         (DHServer_init DH_PARAMS\<lparr>DHServer.B := Some 3\<rparr>)
   \<and> handshake (DHClient_init DH_PARAMS) (DHServer_init DH_PARAMS)
     = Inr (\<lparr>DHClient.params = \<lparr>p = 23, g = 5\<rparr>, a = Some 6, A = Some 8, shared = Some 2\<rparr>,
            \<lparr>DHServer.params = \<lparr>p = 23, g = 5\<rparr>, b = Some 15, B = Some 19, shared = Some 2\<rparr>,
            \<lparr>ok = True\<rparr>, \<lparr>ok = True\<rparr>)"
  using handshake_deterministic [of "DHClient_init DH_PARAMS"
      "DHClient_init DH_PARAMS\<lparr>DHClient.a := Some 99, DHClient.shared := Some 7\<rparr>"
      "DHServer_init DH_PARAMS" "DHServer_init DH_PARAMS\<lparr>DHServer.B := Some 3\<rparr>"]
  by (simp add: handshake_ok DHClient_init_def DHServer_init_def DH_PARAMS_def)

subsection \<open>C9: the parameters are never written\<close>

text \<open>
  C9. No step changes the group parameters a role holds: after \<open>start\<close>,
  \<open>on_client_hello\<close>, \<open>on_server_hello\<close>, \<open>on_client_keyshare\<close> and
  \<open>on_server_keyshare\<close>, whether the step returned or raised, and at the end of a whole
  run, the \<open>params\<close> of the client and of the server are the ones they had before.
\<close>

theorem params_never_mutated:
  "DHClient.params (fst (start c)) = DHClient.params c
   \<and> DHServer.params (fst (on_client_hello s ch)) = DHServer.params s
   \<and> DHClient.params (fst (on_server_hello c sh)) = DHClient.params c
   \<and> DHServer.params (fst (on_client_keyshare s ck)) = DHServer.params s
   \<and> DHClient.params (fst (on_server_keyshare c sk)) = DHClient.params c
   \<and> (case handshake c s of
        Inl err \<Rightarrow> True
      | Inr (c', s', fin_cli, fin_srv) \<Rightarrow>
          DHClient.params c' = DHClient.params c \<and> DHServer.params s' = DHServer.params s)"
proof -
  have 1: "DHClient.params (fst (start c)) = DHClient.params c"
    by (simp add: start_def)
  have 2: "DHServer.params (fst (on_client_hello s ch)) = DHServer.params s"
    by (simp add: on_client_hello_def)
  have 3: "DHClient.params (fst (on_server_hello c sh)) = DHClient.params c"
    by (simp add: on_server_hello_def Let_def split: sum.splits)
  have 4: "DHServer.params (fst (on_client_keyshare s ck)) = DHServer.params s"
    by (simp add: on_client_keyshare_def Let_def split: sum.splits)
  have 5: "DHClient.params (fst (on_server_keyshare c sk)) = DHClient.params c"
    by (simp add: on_server_keyshare_def split: option.splits sum.splits)
  have 6: "(case handshake c s of
        Inl err \<Rightarrow> True
      | Inr (c', s', fin_cli, fin_srv) \<Rightarrow>
          DHClient.params c' = DHClient.params c \<and> DHServer.params s' = DHServer.params s)"
  proof (cases "DHServer.params s = DHClient.params c \<and> p (DHClient.params c) \<noteq> 0")
    case True
    then show ?thesis by (simp add: handshake_ok)
  next
    case False
    then have "handshake c s = Inl AssertionError \<or> handshake c s = Inl ValueError"
      using handshake_mismatch [of s c] handshake_zero [of s c] by blast
    then show ?thesis by auto
  qed
  from 1 2 3 4 5 6 show ?thesis by blast
qed

theorem params_never_mutated_witness:
  "(case main of
      Inl err \<Rightarrow> False
    | Inr (c', s', fin_cli, fin_srv) \<Rightarrow>
        DHClient.params c' = DH_PARAMS \<and> DHServer.params s' = DH_PARAMS)"
  using params_never_mutated [of "DHClient_init DH_PARAMS" "DHServer_init DH_PARAMS"]
  by (simp add: main_def handshake_ok DHClient_init_def DHServer_init_def DH_PARAMS_def)

subsection \<open>C10: the reply to ClientHello\<close>

text \<open>
  C10. Whatever group the ClientHello asks for, \<open>on_client_hello\<close> answers with the
  group name \<^verbatim>\<open>DH_23_5\<close> and the server's own parameters, and leaves the server as it
  was: on a newly built server the private exponent, the public value and the shared
  secret stay unset.
\<close>

theorem on_client_hello_reply:
  "on_client_hello s ch
     = (s, \<lparr>selected_group = ''DH_23_5'', ServerHello.params = DHServer.params s\<rparr>)
   \<and> DHServer.b (fst (on_client_hello (DHServer_init prm) ch)) = None
   \<and> DHServer.B (fst (on_client_hello (DHServer_init prm) ch)) = None
   \<and> DHServer.shared (fst (on_client_hello (DHServer_init prm) ch)) = None"
  by (simp add: on_client_hello_def DHServer_init_def)

theorem on_client_hello_reply_witness:
  "on_client_hello (DHServer_init DH_PARAMS) \<lparr>requested_group = ''X25519''\<rparr>
     = (\<lparr>DHServer.params = \<lparr>p = 23, g = 5\<rparr>, b = None, B = None, shared = None\<rparr>,
        \<lparr>selected_group = ''DH_23_5'', ServerHello.params = \<lparr>p = 23, g = 5\<rparr>\<rparr>)"
  using on_client_hello_reply [of "DHServer_init DH_PARAMS" "\<lparr>requested_group = ''X25519''\<rparr>"
      DH_PARAMS]
  by (simp add: DHServer_init_def DH_PARAMS_def)

end
